theory Spec2Isabelle
  imports Complex_Main "HOL-Library.Sublist"
begin

section \<open>Strings of the runtime\<close>

text \<open>
  A JavaScript string is a sequence of UTF-16 code units. A code unit is modelled by its
  numeric value (a natural number below 65536), a string by the list of its code units,
  so that \<open>length\<close>, \<open>startsWith\<close> and \<open>includes\<close> count what the runtime counts.
  \<open>js\<close> converts an ASCII literal into such a string.
\<close>

type_synonym code_unit = nat
type_synonym jsstring = "code_unit list"

definition js :: "string \<Rightarrow> jsstring" where
  "js s = map of_char s"

text \<open>The class \<open>\s\<close> of regular expressions (WhiteSpace and LineTerminator).\<close>

definition isWhiteSpace :: "code_unit \<Rightarrow> bool" where
  "isWhiteSpace c \<longleftrightarrow>
     c = 0x09 \<or> c = 0x0A \<or> c = 0x0B \<or> c = 0x0C \<or> c = 0x0D \<or> c = 0x20 \<or> c = 0xA0 \<or>
     c = 0x1680 \<or> (0x2000 \<le> c \<and> c \<le> 0x200A) \<or> c = 0x2028 \<or> c = 0x2029 \<or>
     c = 0x202F \<or> c = 0x205F \<or> c = 0x3000 \<or> c = 0xFEFF"

text \<open>\<open>str.replace(/\s+/g, '')\<close>: every maximal run of white space is deleted.\<close>

definition removeWhiteSpace :: "jsstring \<Rightarrow> jsstring" where
  "removeWhiteSpace str = filter (\<lambda>c. \<not> isWhiteSpace c) str"

text \<open>
  \<open>str.replace(/[.,]$/, '')\<close>: without the multiline flag \<open>$\<close> matches at the end of
  the input only, and without the global flag one match is replaced: a single final
  period or comma is deleted.
\<close>

definition isPeriodOrComma :: "code_unit \<Rightarrow> bool" where
  "isPeriodOrComma c \<longleftrightarrow> c = 0x2E \<or> c = 0x2C"

definition removeTrailingPunct :: "jsstring \<Rightarrow> jsstring" where
  "removeTrailingPunct str =
     (if str \<noteq> [] \<and> isPeriodOrComma (last str) then butlast str else str)"

text \<open>
  \<open>str.toLowerCase()\<close> is a built-in of the runtime, driven by the Unicode case tables.
  This development fixes it on the Basic Latin block, where \<open>A\<close>--\<open>Z\<close> go to
  \<open>a\<close>--\<open>z\<close>, and takes every other code unit as unchanged (which is what the runtime
  does for digits, punctuation, Hangul and the circled digits).
\<close>

definition lowerUnit :: "code_unit \<Rightarrow> code_unit" where
  "lowerUnit c = (if 0x41 \<le> c \<and> c \<le> 0x5A then c + 0x20 else c)"

definition toLowerCase :: "jsstring \<Rightarrow> jsstring" where
  "toLowerCase str = map lowerUnit str"

text \<open>
  \<open>n.toString()\<close> for an integer \<open>n\<close>: the decimal digits, most significant first,
  after a minus sign when \<open>n\<close> is negative.
\<close>

fun digits :: "nat \<Rightarrow> jsstring" where
  "digits n = (if n < 10 then [0x30 + n] else digits (n div 10) @ [0x30 + n mod 10])"

declare digits.simps [simp del]

definition toString :: "int \<Rightarrow> jsstring" where
  "toString n = (if n < 0 then 0x2D # digits (nat (- n)) else digits (nat n))"

text \<open>\<open>s.startsWith(p)\<close> and \<open>s.includes(p)\<close>.\<close>

definition startsWith :: "jsstring \<Rightarrow> jsstring \<Rightarrow> bool" where
  "startsWith s p \<longleftrightarrow> prefix p s"

definition includesStr :: "jsstring \<Rightarrow> jsstring \<Rightarrow> bool" where
  "includesStr s p \<longleftrightarrow> sublist p s"

text \<open>
  \<open>xs[i]\<close> for a number \<open>i\<close>: the element when \<open>i\<close> is an index of the array,
  \<open>undefined\<close> (here \<open>None\<close>) otherwise, also for a negative \<open>i\<close>.
\<close>

definition arrayGet :: "'a list \<Rightarrow> int \<Rightarrow> 'a option" where
  "arrayGet xs i = (if 0 \<le> i \<and> i < int (length xs) then Some (xs ! nat i) else None)"

section \<open>The answer evaluator (components/Quiz.tsx, isAnswerMatch)\<close>

definition normalize :: "jsstring \<Rightarrow> jsstring" where
  "normalize str = toLowerCase (removeTrailingPunct (removeWhiteSpace str))"

definition circledNumbers :: "jsstring list" where
  "circledNumbers =
     [[0x2460], [0x2461], [0x2462], [0x2463], [0x2464],
      [0x2465], [0x2466], [0x2467], [0x2468], [0x2469]]"

text \<open>
  \<open>option\<close> is a string or \<open>null\<close> (\<open>None\<close>); \<open>!option\<close> holds for \<open>null\<close> and for the
  empty string. \<open>circledNumber && \<dots>\<close> tests that the array read gave a non-empty string.
\<close>

definition isAnswerMatch :: "jsstring option \<Rightarrow> jsstring \<Rightarrow> int \<Rightarrow> bool" where
  "isAnswerMatch option answer optionIndex =
     (case option of
        None \<Rightarrow> False
      | Some opt \<Rightarrow>
          if opt = [] then False
          else
            let normOption = normalize opt;
                normAnswer = normalize answer
            in
              if normOption = normAnswer then True
              else
                let indexStr = toString (optionIndex + 1);
                    circledNumber = arrayGet circledNumbers optionIndex
                in
                  if normAnswer = indexStr then True
                  else if (case circledNumber of None \<Rightarrow> False
                           | Some g \<Rightarrow> g \<noteq> [] \<and> normAnswer = g) then True
                  else if startsWith normAnswer (indexStr @ js ''.'')
                          \<or> startsWith normAnswer (indexStr @ js '')'') then True
                  else if startsWith normAnswer (js ''('' @ indexStr @ js '')'') then True
                  else if (case circledNumber of None \<Rightarrow> False
                           | Some g \<Rightarrow> g \<noteq> [] \<and> includesStr normAnswer g) then True
                  else False)"

text \<open>
  The option buttons of a question (renderQuestionInput): every option is evaluated
  against the authoritative answer at its own index,
  \<open>options.map((option, index) => isAnswerMatch(option, answer, index))\<close>.
\<close>

definition optionMatches :: "jsstring list \<Rightarrow> jsstring \<Rightarrow> bool list" where
  "optionMatches opts answer =
     map (\<lambda>(option, index). isAnswerMatch (Some option) answer (int index))
       (zip opts [0..<length opts])"

subsection \<open>The evaluator as the specification words it\<close>

text \<open>
  The specification's rules, on the normalized strings, for a candidate string and a
  zero-based position: (1) the normalized strings are equal; (2) the answer is the
  decimal numeral of the 1-based position; (3) the answer is the circled digit of the
  position, of which there are ten; (4) the answer starts with the numeral followed by a
  period or a closing parenthesis, or with the numeral in parentheses; (5) the answer
  contains the circled digit of the position.
\<close>

definition circledGlyph :: "nat \<Rightarrow> jsstring option" where
  "circledGlyph p = (if p < 10 then Some [0x2460 + p] else None)"







section \<open>Data model (types.ts)\<close>

datatype QuestionType = MultipleChoice | ShortAnswer | Ox | Creativity

datatype Grade = A | B | C | D | E

text \<open>An optional field (\<open>options?: string[]\<close>) is \<open>None\<close> when it is absent.\<close>

record QuizQuestion =
  question :: jsstring
  questionTranslation :: "jsstring option"
  passage :: "jsstring option"
  passageTranslation :: "jsstring option"
  questionType :: QuestionType
  options :: "jsstring list option"
  optionsTranslation :: "jsstring list option"
  answer :: jsstring
  answerTranslation :: "jsstring option"
  explanation :: jsstring
  explanationTranslation :: "jsstring option"
  imageBase64 :: "jsstring option"

text \<open>
  A stored result. The fields \<open>id\<close>, \<open>date\<close>, \<open>questions\<close>, \<open>userAnswers\<close> and
  \<open>correctness\<close> of the source carry the prefix \<open>result\<close> here.
\<close>

record QuizResult =
  resultId :: jsstring
  resultDate :: jsstring
  standardId :: jsstring
  standardDescription :: jsstring
  subject :: jsstring
  score :: real
  totalQuestions :: nat
  correctAnswers :: nat
  resultQuestions :: "QuizQuestion list option"
  resultUserAnswers :: "jsstring option list"
  resultCorrectness :: "bool list"

section \<open>The quiz session (components/Quiz.tsx, Quiz)\<close>

text \<open>
  The state of the component: the values kept by \<open>useState\<close> that the handlers below
  read or write. The questions are a property of the component and never change. A number
  is modelled by a real number; the weights added below are multiples of a quarter.
\<close>

record QuizState =
  currentQuestionIndex :: nat
  userAnswers :: "jsstring option list"
  checkedStates :: "bool list"
  showResults :: bool
  tempShortAnswer :: jsstring
  shortAnswerGrades :: "Grade option list"
  showScript :: bool
  showTranslation :: bool

text \<open>The arguments of the callback \<open>onSubmit\<close>.\<close>

record SubmitArgs =
  argScore :: real
  argCorrectAnswers :: nat
  argTotalQuestions :: nat
  argUserAnswers :: "jsstring option list"
  argCorrectness :: "bool list"

text \<open>
  Reading an array of nullable entries at an index: \<open>null\<close> and \<open>undefined\<close> (an index
  outside the array) are both \<open>None\<close>. Writing at an index of a copy of an array:
  inside the array the entry is replaced, beyond its end the array grows, the entries in
  between being empty.
\<close>

definition readArr :: "'a option list \<Rightarrow> nat \<Rightarrow> 'a option" where
  "readArr xs i = (if i < length xs then xs ! i else None)"

definition arraySet :: "'a \<Rightarrow> 'a list \<Rightarrow> nat \<Rightarrow> 'a \<Rightarrow> 'a list" where
  "arraySet hole xs i v =
     (if i < length xs then xs[i := v] else xs @ replicate (i - length xs) hole @ [v])"

text \<open>\<open>xs.findIndex(P)\<close>: the first index whose element satisfies \<open>P\<close>, or \<open>-1\<close>.\<close>

fun findIndexFrom :: "('a \<Rightarrow> bool) \<Rightarrow> 'a list \<Rightarrow> int \<Rightarrow> int" where
  "findIndexFrom P [] i = - 1"
| "findIndexFrom P (x # xs) i = (if P x then i else findIndexFrom P xs (i + 1))"

definition findIndex :: "('a \<Rightarrow> bool) \<Rightarrow> 'a list \<Rightarrow> int" where
  "findIndex P xs = findIndexFrom P xs 0"

definition isMcOrOx :: "QuizQuestion \<Rightarrow> bool" where
  "isMcOrOx q \<longleftrightarrow> questionType q = MultipleChoice \<or> questionType q = Ox"

definition currentQuestion :: "QuizQuestion list \<Rightarrow> QuizState \<Rightarrow> QuizQuestion option" where
  "currentQuestion safeQuestions st =
     (if currentQuestionIndex st < length safeQuestions
      then Some (safeQuestions ! currentQuestionIndex st) else None)"

definition isAnswerChecked :: "QuizState \<Rightarrow> bool" where
  "isAnswerChecked st \<longleftrightarrow>
     currentQuestionIndex st < length (checkedStates st)
     \<and> checkedStates st ! currentQuestionIndex st"

definition initialState :: "QuizQuestion list \<Rightarrow> QuizState" where
  "initialState safeQuestions =
     \<lparr> currentQuestionIndex = 0,
       userAnswers = replicate (length safeQuestions) None,
       checkedStates = replicate (length safeQuestions) False,
       showResults = False,
       tempShortAnswer = [],
       shortAnswerGrades = replicate (length safeQuestions) None,
       showScript = False,
       showTranslation = False \<rparr>"

definition handleAnswerSelect :: "jsstring \<Rightarrow> QuizState \<Rightarrow> QuizState" where
  "handleAnswerSelect option st =
     (if isAnswerChecked st then st
      else st\<lparr>userAnswers := arraySet None (userAnswers st) (currentQuestionIndex st) (Some option)\<rparr>)"

definition handleShortAnswerChange :: "jsstring \<Rightarrow> QuizState \<Rightarrow> QuizState" where
  "handleShortAnswerChange text st =
     (if isAnswerChecked st then st else st\<lparr>tempShortAnswer := text\<rparr>)"

definition handleCheckAnswer :: "QuizQuestion \<Rightarrow> QuizState \<Rightarrow> QuizState" where
  "handleCheckAnswer q st =
     (let st1 = (if \<not> isMcOrOx q
                 then st\<lparr>userAnswers :=
                        arraySet None (userAnswers st) (currentQuestionIndex st)
                          (Some (tempShortAnswer st))\<rparr>
                 else st)
      in st1\<lparr>checkedStates := arraySet False (checkedStates st) (currentQuestionIndex st) True,
              showScript := True\<rparr>)"

definition handleGradeSelection :: "Grade \<Rightarrow> QuizState \<Rightarrow> QuizState" where
  "handleGradeSelection grade st =
     st\<lparr>shortAnswerGrades :=
          arraySet None (shortAnswerGrades st) (currentQuestionIndex st) (Some grade)\<rparr>"

definition handlePrev :: "QuizState \<Rightarrow> QuizState" where
  "handlePrev st =
     (if currentQuestionIndex st > 0
      then st\<lparr>currentQuestionIndex := currentQuestionIndex st - 1\<rparr> else st)"

subsection \<open>Scoring (handleNext on the last question)\<close>

text \<open>
  The callback of \<open>safeQuestions.map\<close>: the value it returns for a question, and the
  amount it adds to \<open>totalEarnedPoints\<close> on the way (none when the selected option is
  found among the options).
\<close>

definition firstPass :: "QuizQuestion \<Rightarrow> jsstring option \<Rightarrow> Grade option \<Rightarrow> real \<times> bool" where
  "firstPass q ans grade =
     (if \<not> isMcOrOx q then
        (if grade = Some A then (1, True)
         else if grade = Some B then (0.75, True)
         else if grade = Some C then (0.5, True)
         else if grade = Some D then (0.25, False)
         else (0, False))
      else
        let opts = (case options q of None \<Rightarrow> [] | Some os \<Rightarrow> os);
            selectedIndex = findIndex (\<lambda>opt. Some opt = ans) opts
        in
          if selectedIndex \<noteq> - 1 then (0, isAnswerMatch ans (answer q) selectedIndex)
          else
            let isCorrect = isAnswerMatch ans (answer q) (- 1)
            in (if isCorrect then 1 else 0, isCorrect))"

definition calculatedCorrectness ::
    "QuizQuestion list \<Rightarrow> jsstring option list \<Rightarrow> Grade option list \<Rightarrow> bool list" where
  "calculatedCorrectness safeQuestions answers grades =
     map (\<lambda>(q, index). snd (firstPass q (readArr answers index) (readArr grades index)))
       (zip safeQuestions [0..<length safeQuestions])"

text \<open>The callback of \<open>safeQuestions.forEach\<close>, after \<open>totalEarnedPoints = 0\<close>.\<close>

definition secondPass ::
    "bool list \<Rightarrow> Grade option list \<Rightarrow> QuizQuestion \<times> nat \<Rightarrow> real \<Rightarrow> real" where
  "secondPass correctness grades qi totalEarnedPoints =
     (case qi of (q, i) \<Rightarrow>
        if \<not> isMcOrOx q then
          (let grade = readArr grades i in
             if grade = Some A then totalEarnedPoints + 1
             else if grade = Some B then totalEarnedPoints + 0.75
             else if grade = Some C then totalEarnedPoints + 0.5
             else if grade = Some D then totalEarnedPoints + 0.25
             else totalEarnedPoints)
        else
          (if i < length correctness \<and> correctness ! i then totalEarnedPoints + 1
           else totalEarnedPoints))"

definition totalEarnedPoints ::
    "QuizQuestion list \<Rightarrow> jsstring option list \<Rightarrow> Grade option list \<Rightarrow> real" where
  "totalEarnedPoints safeQuestions answers grades =
     fold (secondPass (calculatedCorrectness safeQuestions answers grades) grades)
       (zip safeQuestions [0..<length safeQuestions]) 0"

definition finalResults ::
    "QuizQuestion list \<Rightarrow> jsstring option list \<Rightarrow> Grade option list \<Rightarrow> SubmitArgs" where
  "finalResults safeQuestions answers grades =
     (let correctness = calculatedCorrectness safeQuestions answers grades;
          correctCount = length (filter (\<lambda>c. c = True) correctness);
          scorePercentage =
            totalEarnedPoints safeQuestions answers grades / real (length safeQuestions) * 100
      in \<lparr> argScore = scorePercentage,
           argCorrectAnswers = correctCount,
           argTotalQuestions = length safeQuestions,
           argUserAnswers = answers,
           argCorrectness = correctness \<rparr>)"

definition handleNext :: "QuizQuestion list \<Rightarrow> QuizState \<Rightarrow> QuizState \<times> SubmitArgs option" where
  "handleNext safeQuestions st =
     (if int (currentQuestionIndex st) < int (length safeQuestions) - 1
      then (st\<lparr>currentQuestionIndex := currentQuestionIndex st + 1\<rparr>, None)
      else (st\<lparr>showResults := True\<rparr>,
            Some (finalResults safeQuestions (userAnswers st) (shortAnswerGrades st))))"

subsection \<open>The button that advances\<close>

text \<open>
  \<open>isNextButtonDisabled\<close> compares the grade of the current question with \<open>null\<close>; an
  index outside the array reads \<open>undefined\<close>, which is not \<open>null\<close>.
\<close>

definition isNextButtonDisabled :: "QuizQuestion \<Rightarrow> QuizState \<Rightarrow> bool" where
  "isNextButtonDisabled q st \<longleftrightarrow>
     isAnswerChecked st \<and> \<not> isMcOrOx q
     \<and> currentQuestionIndex st < length (shortAnswerGrades st)
     \<and> shortAnswerGrades st ! currentQuestionIndex st = None"

text \<open>
  The button for the next question is rendered only when the current question is checked
  (the button that checks the answer takes its place otherwise), and a disabled button
  does not call its handler. \<open>advance\<close> is the request to go on: it runs \<open>handleNext\<close>
  when that button is there and enabled, and changes nothing otherwise. Nothing is
  rendered, and the result is \<open>None\<close>, when there is no current question or when the
  results are shown.
\<close>

definition advance :: "QuizQuestion list \<Rightarrow> QuizState \<Rightarrow> (QuizState \<times> SubmitArgs option) option" where
  "advance safeQuestions st =
     (case currentQuestion safeQuestions st of
        None \<Rightarrow> None
      | Some q \<Rightarrow>
          if showResults st then None
          else if isAnswerChecked st \<and> \<not> isNextButtonDisabled q st
          then Some (handleNext safeQuestions st)
          else Some (st, None))"

subsection \<open>The score as the specification words it\<close>

text \<open>
  The specification's earned weight of a question: for a multiple-choice or true-false
  question 1 when the evaluator matches the recorded answer at the position of the selected
  option (the position \<open>-1\<close> when the answer is not among the options), else 0; for a
  short-answer or open-ended question the weight of its grade, A = 1, B = 0.75, C = 0.5,
  D = 0.25, E or no grade = 0.
\<close>

definition gradeWeight :: "Grade option \<Rightarrow> real" where
  "gradeWeight g =
     (case g of
        Some A \<Rightarrow> 1 | Some B \<Rightarrow> 0.75 | Some C \<Rightarrow> 0.5 | Some D \<Rightarrow> 0.25
      | Some E \<Rightarrow> 0 | None \<Rightarrow> 0)"

definition evaluatorMatch :: "QuizQuestion \<Rightarrow> jsstring option \<Rightarrow> bool" where
  "evaluatorMatch q ans =
     isAnswerMatch ans (answer q)
       (findIndex (\<lambda>opt. Some opt = ans) (case options q of None \<Rightarrow> [] | Some os \<Rightarrow> os))"

definition earnedWeight :: "QuizQuestion \<Rightarrow> jsstring option \<Rightarrow> Grade option \<Rightarrow> real" where
  "earnedWeight q ans g =
     (if isMcOrOx q then (if evaluatorMatch q ans then 1 else 0) else gradeWeight g)"

definition earnedWeights ::
    "QuizQuestion list \<Rightarrow> jsstring option list \<Rightarrow> Grade option list \<Rightarrow> real list" where
  "earnedWeights safeQuestions answers grades =
     map (\<lambda>(q, index). earnedWeight q (readArr answers index) (readArr grades index))
       (zip safeQuestions [0..<length safeQuestions])"

text \<open>
  A question with the given type, options and answer; its texts are empty and its
  optional fields absent. Used for the concrete sessions below.
\<close>

definition plainQuestion :: "QuestionType \<Rightarrow> jsstring list option \<Rightarrow> jsstring \<Rightarrow> QuizQuestion" where
  "plainQuestion t os a =
     \<lparr> question = [], questionTranslation = None, passage = None, passageTranslation = None,
       questionType = t, options = os, optionsTranslation = None, answer = a,
       answerTranslation = None, explanation = [], explanationTranslation = None,
       imageBase64 = None \<rparr>"

text \<open>
  The session of the specification's scenario: two multiple-choice questions answered
  with their right options, a short-answer question graded B and an open-ended question
  graded E.
\<close>

definition scenarioQuestions :: "QuizQuestion list" where
  "scenarioQuestions =
     [plainQuestion MultipleChoice
        (Some [[0x2460, 0x33], [0x2461, 0x35], [0x2462, 0x37]]) [0x2461],
      plainQuestion MultipleChoice (Some [js ''a'', js ''b'']) (js ''a''),
      plainQuestion ShortAnswer None (js ''x''),
      plainQuestion Creativity None (js ''y'')]"

definition scenarioAnswers :: "jsstring option list" where
  "scenarioAnswers = [Some [0x2461, 0x35], Some (js ''a''), Some (js ''z''), Some (js ''w'')]"

definition scenarioGrades :: "Grade option list" where
  "scenarioGrades = [None, None, Some B, Some E]"

text \<open>
  A session with one question graded D among otherwise perfect answers: a multiple-choice
  question answered with its right option and a short-answer question graded D.
\<close>

definition gradedDQuestions :: "QuizQuestion list" where
  "gradedDQuestions =
     [plainQuestion MultipleChoice (Some [js ''a'', js ''b'']) (js ''2''),
      plainQuestion ShortAnswer None (js ''x'')]"

definition gradedDAnswers :: "jsstring option list" where
  "gradedDAnswers = [Some (js ''b''), Some (js ''z'')]"

definition gradedDGrades :: "Grade option list" where
  "gradedDGrades = [None, Some D]"

section \<open>The history of results\<close>

text \<open>
  \<open>handleQuizSubmit\<close> (study session): the new result takes its id and date from the
  clock, its description from the standard under study, and the rest from the arguments
  of \<open>onSubmit\<close>; the history becomes \<open>[...studyHistory, newResult]\<close>.
\<close>

definition newResult ::
    "jsstring \<Rightarrow> jsstring \<times> jsstring \<Rightarrow> jsstring \<Rightarrow> QuizQuestion list option \<Rightarrow> SubmitArgs
      \<Rightarrow> QuizResult" where
  "newResult now standard subjectName questions args =
     \<lparr> resultId = now,
       resultDate = now,
       standardId = fst standard,
       standardDescription = snd standard,
       subject = subjectName,
       score = argScore args,
       totalQuestions = argTotalQuestions args,
       correctAnswers = argCorrectAnswers args,
       resultQuestions = questions,
       resultUserAnswers = argUserAnswers args,
       resultCorrectness = argCorrectness args \<rparr>"

definition handleQuizSubmit ::
    "jsstring \<Rightarrow> jsstring \<times> jsstring \<Rightarrow> jsstring \<Rightarrow> QuizQuestion list option \<Rightarrow> SubmitArgs
      \<Rightarrow> QuizResult list \<Rightarrow> QuizResult list" where
  "handleQuizSubmit now standard subjectName questions args studyHistory =
     studyHistory @ [newResult now standard subjectName questions args]"

text \<open>
  \<open>handleDeleteHistoryItem\<close> (dashboard): after the user has confirmed, the history
  becomes \<open>prev.filter(item => item.id !== id)\<close>.
\<close>

definition handleDeleteHistoryItem :: "bool \<Rightarrow> jsstring \<Rightarrow> QuizResult list \<Rightarrow> QuizResult list" where
  "handleDeleteHistoryItem confirmed ident prev =
     (if confirmed then filter (\<lambda>item. resultId item \<noteq> ident) prev else prev)"

section \<open>Normalization\<close>


lemma lowerUnit_punct: "isPeriodOrComma (lowerUnit c) = isPeriodOrComma c"
  by (auto simp: isPeriodOrComma_def lowerUnit_def)



lemma removeTrailingPunct_lower:
  "removeTrailingPunct (toLowerCase s) = toLowerCase (removeTrailingPunct s)"
proof (cases s rule: rev_cases)
  case Nil
  then show ?thesis by (simp add: removeTrailingPunct_def toLowerCase_def)
next
  case (snoc ys y)
  then show ?thesis
    by (simp add: removeTrailingPunct_def toLowerCase_def lowerUnit_punct)
qed









text \<open>Unfolding the string operations on concrete strings.\<close>

lemmas str_eval = js_def normalize_def toLowerCase_def lowerUnit_def removeTrailingPunct_def
  removeWhiteSpace_def isWhiteSpace_def isPeriodOrComma_def toString_def digits.simps
  startsWith_def includesStr_def arrayGet_def circledNumbers_def




section \<open>The evaluator\<close>

lemma below_ten:
  "p < (10::nat) \<Longrightarrow>
     p = 0 \<or> p = 1 \<or> p = 2 \<or> p = 3 \<or> p = 4 \<or> p = 5 \<or> p = 6 \<or> p = 7 \<or> p = 8 \<or> p = 9"
  by arith

lemma circledNumbers_nth: "p < 10 \<Longrightarrow> circledNumbers ! p = [0x2460 + p]"
  using below_ten [of p] by (auto simp add: circledNumbers_def)

lemma length_circledNumbers: "length circledNumbers = 10"
  by (simp add: circledNumbers_def)

lemma arrayGet_circledNumbers: "arrayGet circledNumbers (int p) = circledGlyph p"
proof (cases "p < 10")
  case True
  then have "arrayGet circledNumbers (int p) = Some (circledNumbers ! p)"
    by (simp add: arrayGet_def length_circledNumbers)
  with True show ?thesis
    by (simp only: circledNumbers_nth [OF True] circledGlyph_def if_True)
next
  case False
  then show ?thesis
    by (simp add: arrayGet_def length_circledNumbers circledGlyph_def)
qed

lemma toString_position: "toString (int p + 1) = digits (p + 1)"
proof -
  have "nat (int p + 1) = p + 1" by simp
  then show ?thesis by (simp add: toString_def)
qed




text \<open>
  C4. With the position \<open>-1\<close> the evaluator still compares the answer with the
  numeral of \<open>-1 + 1\<close>: the option \<open>X\<close> matches the answer \<open>0\<close>, whose normalized
  text differs from that of the option.
\<close>

theorem isAnswerMatch_sentinel_index_rule:
  "isAnswerMatch (Some (js ''X'')) (js ''0'') (- 1)
     \<and> normalize (js ''X'') \<noteq> normalize (js ''0'')"
  by (simp add: isAnswerMatch_def str_eval)


text \<open>
  C10. A candidate that is \<open>null\<close> or the empty string matches no answer at any
  position, also an answer that normalizes to the empty string.
\<close>

theorem isAnswerMatch_empty_candidate:
  "\<not> isAnswerMatch None ans optionIndex \<and> \<not> isAnswerMatch (Some []) ans optionIndex"
  by (simp add: isAnswerMatch_def)

subsection \<open>Answers that name a position\<close>

lemma digits_range: "c \<in> set (digits n) \<Longrightarrow> 0x30 \<le> c \<and> c \<le> 0x39"
proof (induction n rule: digits.induct)
  case (1 n)
  show ?case
  proof (cases "n < 10")
    case True
    with "1.prems" show ?thesis by (simp add: digits.simps [of n])
  next
    case False
    have "n mod 10 < 10" by simp
    with False "1.prems" "1.IH" show ?thesis
      by (auto simp add: digits.simps [of n])
  qed
qed

lemma digits_not_Nil: "digits n \<noteq> []"
  by (simp add: digits.simps [of n])

lemma digits_inject: "digits m = digits n \<Longrightarrow> m = n"
proof (induction m arbitrary: n rule: digits.induct)
  case (1 m)
  show ?case
  proof (cases "m < 10")
    case m: True
    show ?thesis
    proof (cases "n < 10")
      case True
      with m "1.prems" show ?thesis by (simp add: digits.simps [of m] digits.simps [of n])
    next
      case False
      with m "1.prems" digits_not_Nil [of "n div 10"] show ?thesis
        by (simp add: digits.simps [of m] digits.simps [of n])
    qed
  next
    case m: False
    show ?thesis
    proof (cases "n < 10")
      case True
      with m "1.prems" digits_not_Nil [of "m div 10"] show ?thesis
        by (simp add: digits.simps [of m] digits.simps [of n])
    next
      case False
      with m "1.prems" have "digits (m div 10) = digits (n div 10)" and r: "m mod 10 = n mod 10"
        by (simp_all add: digits.simps [of m] digits.simps [of n])
      with m "1.IH" have "m div 10 = n div 10" by simp
      with r show ?thesis by (metis div_mult_mod_eq)
    qed
  qed
qed

lemma normalize_plain:
  assumes "\<And>c. c \<in> set s \<Longrightarrow> \<not> isWhiteSpace c \<and> \<not> isPeriodOrComma c \<and> lowerUnit c = c"
  shows "normalize s = s"
proof -
  have ws: "removeWhiteSpace s = s"
    unfolding removeWhiteSpace_def using assms by (intro filter_True ballI) simp
  have tp: "removeTrailingPunct s = s"
    using assms [of "last s"] by (auto simp add: removeTrailingPunct_def)
  have lo: "toLowerCase s = s"
    unfolding toLowerCase_def using assms by (intro map_idI) simp
  show ?thesis by (simp add: normalize_def ws tp lo)
qed

lemma normalize_digits: "normalize (digits n) = digits n"
proof (rule normalize_plain)
  fix c assume "c \<in> set (digits n)"
  then have "0x30 \<le> c \<and> c \<le> 0x39" by (rule digits_range)
  then show "\<not> isWhiteSpace c \<and> \<not> isPeriodOrComma c \<and> lowerUnit c = c"
    by (auto simp add: isWhiteSpace_def isPeriodOrComma_def lowerUnit_def)
qed

lemma normalize_glyph: "p < 10 \<Longrightarrow> normalize [0x2460 + p] = [0x2460 + p]"
proof (rule normalize_plain)
  fix c assume "p < 10" and "c \<in> set [0x2460 + p]"
  then have "0x2460 \<le> c \<and> c \<le> 0x2469" by auto
  then show "\<not> isWhiteSpace c \<and> \<not> isPeriodOrComma c \<and> lowerUnit c = c"
    by (auto simp add: isWhiteSpace_def isPeriodOrComma_def lowerUnit_def)
qed

lemma sublist_single: "sublist [x] ys \<longleftrightarrow> x \<in> set ys"
  by (induction ys) (auto simp add: sublist_Cons_right)

lemma isAnswerMatch_position:
  "opt \<noteq> [] \<Longrightarrow>
     isAnswerMatch (Some opt) ans (int p) =
       (normalize opt = normalize ans
        \<or> normalize ans = digits (p + 1)
        \<or> prefix (digits (p + 1) @ js ''.'') (normalize ans)
        \<or> prefix (digits (p + 1) @ js '')'') (normalize ans)
        \<or> prefix (js ''('' @ digits (p + 1) @ js '')'') (normalize ans)
        \<or> (p < 10 \<and> 0x2460 + p \<in> set (normalize ans)))"
proof (cases "p < 10")
  case True
  then have "circledGlyph p = Some [0x2460 + p]" by (simp add: circledGlyph_def)
  then show ?thesis if "opt \<noteq> []"
    using that True
    by (simp add: isAnswerMatch_def Let_def arrayGet_circledNumbers toString_position
        startsWith_def includesStr_def sublist_single)
next
  case False
  then have "circledGlyph p = None" by (simp add: circledGlyph_def)
  then show ?thesis if "opt \<noteq> []"
    using that False
    by (simp add: isAnswerMatch_def Let_def arrayGet_circledNumbers toString_position
        startsWith_def includesStr_def)
qed

lemma optionMatches_nth:
  "q < length opts \<Longrightarrow> optionMatches opts ans ! q = isAnswerMatch (Some (opts ! q)) ans (int q)"
  by (simp add: optionMatches_def)

lemma digits_answer_match:
  "opt \<noteq> [] \<Longrightarrow>
     isAnswerMatch (Some opt) (digits (p + 1)) (int q) =
       (q = p \<or> normalize opt = normalize (digits (p + 1)))"
proof -
  assume ne: "opt \<noteq> []"
  let ?d = "digits (p + 1)"
  have r: "c \<in> set ?d \<Longrightarrow> 0x30 \<le> c \<and> c \<le> 0x39" for c by (rule digits_range)
  have two: "?d = digits (q + 1) \<longleftrightarrow> q = p"
    using digits_inject [of "p + 1" "q + 1"] by auto
  have dot: "\<not> prefix (digits (q + 1) @ js ''.'') ?d"
  proof
    assume "prefix (digits (q + 1) @ js ''.'') ?d"
    then have "set (digits (q + 1) @ js ''.'') \<subseteq> set ?d" by (rule set_mono_prefix)
    then have "0x2E \<in> set ?d" by (simp add: js_def)
    with r [of "0x2E"] show False by simp
  qed
  have par: "\<not> prefix (digits (q + 1) @ js '')'') ?d"
  proof
    assume "prefix (digits (q + 1) @ js '')'') ?d"
    then have "set (digits (q + 1) @ js '')'') \<subseteq> set ?d" by (rule set_mono_prefix)
    then have "0x29 \<in> set ?d" by (simp add: js_def)
    with r [of "0x29"] show False by simp
  qed
  have par2: "\<not> prefix (js ''('' @ digits (q + 1) @ js '')'') ?d"
  proof
    assume "prefix (js ''('' @ digits (q + 1) @ js '')'') ?d"
    then have "set (js ''('' @ digits (q + 1) @ js '')'') \<subseteq> set ?d" by (rule set_mono_prefix)
    then have "0x28 \<in> set ?d" by (simp add: js_def)
    with r [of "0x28"] show False by simp
  qed
  have gl: "0x2460 + q \<notin> set ?d"
    using r [of "0x2460 + q"] by auto
  show ?thesis
    using two dot par par2 gl
    by (auto simp add: isAnswerMatch_position [OF ne] normalize_digits)
qed

lemma glyph_answer_match:
  assumes ne: "opt \<noteq> []" and p: "p < 10"
  shows "isAnswerMatch (Some opt) [0x2460 + p] (int q) =
       (q = p \<or> normalize opt = normalize [0x2460 + p])"
proof -
  let ?g = "[0x2460 + p] :: jsstring"
  have two: "?g \<noteq> digits (q + 1)"
  proof
    assume "?g = digits (q + 1)"
    then have "0x2460 + p \<in> set (digits (q + 1))" by (metis list.set_intros(1))
    then show False using digits_range [of "0x2460 + p" "q + 1"] by simp
  qed
  have len: "length (digits (q + 1)) \<ge> 1"
    using digits_not_Nil [of "q + 1"] by (cases "digits (q + 1)") simp_all
  have dot: "\<not> prefix (digits (q + 1) @ js ''.'') ?g"
    using len prefix_length_le [of "digits (q + 1) @ js ''.''" ?g] by (auto simp add: js_def)
  have par: "\<not> prefix (digits (q + 1) @ js '')'') ?g"
    using len prefix_length_le [of "digits (q + 1) @ js '')''" ?g] by (auto simp add: js_def)
  have par2: "\<not> prefix (js ''('' @ digits (q + 1) @ js '')'') ?g"
    using len prefix_length_le [of "js ''('' @ digits (q + 1) @ js '')''" ?g]
    by (auto simp add: js_def)
  show ?thesis
    using two dot par par2 p
    by (auto simp add: isAnswerMatch_position [OF ne] normalize_glyph [OF p])
qed

text \<open>
  C5, as amended. Let \<open>p\<close> be a position among the options whose option is not the
  empty string, and let the answer be the decimal numeral of \<open>p + 1\<close> or, for
  \<open>p < 10\<close>, the circled digit of \<open>p\<close>. Then the option at \<open>p\<close> matches, and an
  option at another position matches exactly when it is not empty and its normalized text
  is the normalized answer (the direct rule). The witness is the scenario of the
  specification: options \<open>(1)3\<close>, \<open>(2)5\<close>, \<open>(3)7\<close> with circled digits and the
  answer \<open>(2)\<close>.
\<close>

theorem index_or_circled_answer:
  assumes "p < length opts" and "opts ! p \<noteq> []"
    and "ans = toString (int p + 1) \<or> (p < 10 \<and> ans = circledNumbers ! p)"
  shows "optionMatches opts ans ! p \<and>
    (\<forall>q < length opts. q \<noteq> p \<longrightarrow>
       optionMatches opts ans ! q
         = (opts ! q \<noteq> [] \<and> normalize (opts ! q) = normalize ans))"
proof -
  have m: "isAnswerMatch (Some opt) ans (int q) = (q = p \<or> normalize opt = normalize ans)"
    if ne: "opt \<noteq> []" for opt q
    using assms(3)
  proof
    assume "ans = toString (int p + 1)"
    then have "ans = digits (p + 1)" by (simp only: toString_position)
    then show ?thesis by (simp only: digits_answer_match [OF ne])
  next
    assume "p < 10 \<and> ans = circledNumbers ! p"
    then have p: "p < 10" and "ans = [0x2460 + p]" by (simp_all add: circledNumbers_nth)
    then show ?thesis by (simp only: glyph_answer_match [OF ne p])
  qed
  have e: "\<not> isAnswerMatch (Some []) ans (int q)" for q
    by (simp add: isAnswerMatch_def)
  have "optionMatches opts ans ! p"
    using assms(1,2) m [of "opts ! p" p] by (simp add: optionMatches_nth)
  moreover have "optionMatches opts ans ! q
      = (opts ! q \<noteq> [] \<and> normalize (opts ! q) = normalize ans)"
    if "q < length opts" and "q \<noteq> p" for q
    using that m [of "opts ! q" q] e [of q]
    by (cases "opts ! q = []") (simp_all add: optionMatches_nth)
  ultimately show ?thesis by blast
qed

theorem index_or_circled_answer_witness:
  "optionMatches [[0x2460, 0x33], [0x2461, 0x35], [0x2462, 0x37]] [0x2461] ! 1
   \<and> \<not> optionMatches [[0x2460, 0x33], [0x2461, 0x35], [0x2462, 0x37]] [0x2461] ! 0
   \<and> \<not> optionMatches [[0x2460, 0x33], [0x2461, 0x35], [0x2462, 0x37]] [0x2461] ! 2"
proof -
  let ?opts = "[[0x2460, 0x33], [0x2461, 0x35], [0x2462, 0x37]] :: jsstring list"
  have a: "(1::nat) < length ?opts" by simp
  have b: "?opts ! 1 \<noteq> []" by simp
  have c: "[0x2461] = toString (int 1 + 1) \<or> ((1::nat) < 10 \<and> [0x2461] = circledNumbers ! 1)"
    by (simp add: circledNumbers_def)
  have n0: "normalize (?opts ! 0) \<noteq> normalize [0x2461]" by (simp add: str_eval)
  have n2: "normalize (?opts ! 2) \<noteq> normalize [0x2461]" by (simp add: str_eval)
  from index_or_circled_answer [OF a b c]
  have h: "optionMatches ?opts [0x2461] ! 1"
    and r: "\<And>q. q < length ?opts \<Longrightarrow> q \<noteq> 1 \<Longrightarrow>
       optionMatches ?opts [0x2461] ! q
         = (?opts ! q \<noteq> [] \<and> normalize (?opts ! q) = normalize [0x2461])"
    by blast+
  from r [of 0] n0 have "\<not> optionMatches ?opts [0x2461] ! 0" by simp
  moreover from r [of 2] n2 have "\<not> optionMatches ?opts [0x2461] ! 2" by simp
  ultimately show ?thesis using h by simp
qed

text \<open>
  C5, as stated, fails: with the options \<open>2\<close>, \<open>1\<close> and the answer \<open>1\<close>, the
  numeral of position 0, the option at position 1 matches as well, by its text.
\<close>

theorem index_answer_counterexample:
  "optionMatches [js ''2'', js ''1''] (toString (int 0 + 1)) = [True, True]"
  by (simp add: optionMatches_def isAnswerMatch_def str_eval upt_rec)

section \<open>Scoring\<close>


lemma calculatedCorrectness_length:
  "length (calculatedCorrectness qs answers grades) = length qs"
  by (simp add: calculatedCorrectness_def)

lemma calculatedCorrectness_nth:
  "i < length qs \<Longrightarrow>
     calculatedCorrectness qs answers grades ! i
       = snd (firstPass (qs ! i) (readArr answers i) (readArr grades i))"
  by (simp add: calculatedCorrectness_def)

lemma firstPass_objective:
  "isMcOrOx q \<Longrightarrow> snd (firstPass q ans g) = evaluatorMatch q ans"
  by (simp add: firstPass_def evaluatorMatch_def Let_def)

lemma firstPass_free_text:
  "\<not> isMcOrOx q \<Longrightarrow> snd (firstPass q ans g) = (g = Some A \<or> g = Some B \<or> g = Some C)"
  by (simp add: firstPass_def)

lemma secondPass_earnedWeight:
  assumes "i < length qs"
  shows "secondPass (calculatedCorrectness qs answers grades) grades (qs ! i, i) t
     = t + earnedWeight (qs ! i) (readArr answers i) (readArr grades i)"
proof (cases "isMcOrOx (qs ! i)")
  case True
  with assms show ?thesis
    by (simp add: secondPass_def earnedWeight_def calculatedCorrectness_length
        calculatedCorrectness_nth firstPass_objective)
next
  case False
  then show ?thesis
    by (cases "readArr grades i" rule: option.exhaust [case_names None Some])
       (auto simp add: secondPass_def earnedWeight_def gradeWeight_def Let_def split: Grade.splits)
qed







text \<open>Unfolding the scoring pass on concrete sessions.\<close>

lemmas score_eval = finalResults_def calculatedCorrectness_def totalEarnedPoints_def
  secondPass_def firstPass_def readArr_def isMcOrOx_def plainQuestion_def findIndex_def
  isAnswerMatch_def earnedWeights_def earnedWeight_def evaluatorMatch_def gradeWeight_def
  Let_def upt_rec



text \<open>
  C1, as amended. In the final scoring pass a short-answer or open-ended question counts
  as correct exactly when its grade is A, B or C; the correct count is the number of
  questions that count as correct; and a question graded D adds 0.25 to the earned points
  while it does not count as correct. The witness is a session of a multiple-choice
  question answered right and a short-answer question graded D: the score is 62.5 and
  the correct count is 1 of 2.
\<close>

theorem free_text_correct_count:
  assumes "i < length safeQuestions" and "\<not> isMcOrOx (safeQuestions ! i)"
  shows "argCorrectness (finalResults safeQuestions answers grades) ! i
       = (readArr grades i = Some A \<or> readArr grades i = Some B \<or> readArr grades i = Some C)
     \<and> argCorrectAnswers (finalResults safeQuestions answers grades)
       = length (filter (\<lambda>c. c) (argCorrectness (finalResults safeQuestions answers grades)))
     \<and> (readArr grades i = Some D \<longrightarrow>
          \<not> argCorrectness (finalResults safeQuestions answers grades) ! i
          \<and> (\<forall>t. secondPass (calculatedCorrectness safeQuestions answers grades) grades
                  (safeQuestions ! i, i) t = t + 0.25))"
proof -
  have c: "argCorrectness (finalResults safeQuestions answers grades) ! i
       = (readArr grades i = Some A \<or> readArr grades i = Some B \<or> readArr grades i = Some C)"
    using assms by (simp add: finalResults_def Let_def calculatedCorrectness_nth firstPass_free_text)
  have n: "argCorrectAnswers (finalResults safeQuestions answers grades)
       = length (filter (\<lambda>c. c) (argCorrectness (finalResults safeQuestions answers grades)))"
    by (simp add: finalResults_def Let_def)
  have d: "secondPass (calculatedCorrectness safeQuestions answers grades) grades
         (safeQuestions ! i, i) t = t + 0.25" if "readArr grades i = Some D" for t
    using assms that by (simp add: secondPass_earnedWeight earnedWeight_def gradeWeight_def)
  from c n d show ?thesis by simp
qed

theorem free_text_correct_count_witness:
  "1 < length gradedDQuestions \<and> \<not> isMcOrOx (gradedDQuestions ! 1)
   \<and> readArr gradedDGrades 1 = Some D
   \<and> \<not> argCorrectness (finalResults gradedDQuestions gradedDAnswers gradedDGrades) ! 1
   \<and> argCorrectAnswers (finalResults gradedDQuestions gradedDAnswers gradedDGrades) = 1
   \<and> argTotalQuestions (finalResults gradedDQuestions gradedDAnswers gradedDGrades) = 2
   \<and> argScore (finalResults gradedDQuestions gradedDAnswers gradedDGrades) = 62.5"
proof -
  have a: "1 < length gradedDQuestions" by (simp add: gradedDQuestions_def)
  have b: "\<not> isMcOrOx (gradedDQuestions ! 1)"
    by (simp add: gradedDQuestions_def isMcOrOx_def plainQuestion_def)
  have d: "readArr gradedDGrades 1 = Some D" by (simp add: gradedDGrades_def readArr_def)
  have e: "argCorrectAnswers (finalResults gradedDQuestions gradedDAnswers gradedDGrades) = 1
     \<and> argTotalQuestions (finalResults gradedDQuestions gradedDAnswers gradedDGrades) = 2
     \<and> argScore (finalResults gradedDQuestions gradedDAnswers gradedDGrades) = 62.5"
    by (simp add: gradedDQuestions_def gradedDAnswers_def gradedDGrades_def score_eval str_eval)
  from free_text_correct_count [OF a b, of gradedDAnswers gradedDGrades] d
  have "\<not> argCorrectness (finalResults gradedDQuestions gradedDAnswers gradedDGrades) ! 1"
    by blast
  with a b d e show ?thesis by simp
qed

text \<open>
  C1, as stated, fails: a short-answer question graded C, of weight 0.5, counts as
  correct.
\<close>

theorem grade_C_counterexample:
  "argCorrectness (finalResults [plainQuestion ShortAnswer None (js ''x'')]
       [Some (js ''y'')] [Some C]) = [True]
   \<and> argCorrectAnswers (finalResults [plainQuestion ShortAnswer None (js ''x'')]
       [Some (js ''y'')] [Some C]) = 1
   \<and> gradeWeight (Some C) = 0.5"
  by (simp add: score_eval)

section \<open>Advancing\<close>

lemma handleNext_changes: "handleNext qs st \<noteq> (st, None)"
proof (cases "int (currentQuestionIndex st) < int (length qs) - 1")
  case True
  have "currentQuestionIndex (st\<lparr>currentQuestionIndex := currentQuestionIndex st + 1\<rparr>)
      \<noteq> currentQuestionIndex st" by simp
  then have "st\<lparr>currentQuestionIndex := currentQuestionIndex st + 1\<rparr> \<noteq> st" by metis
  with True show ?thesis by (simp add: handleNext_def)
next
  case False
  then show ?thesis by (simp add: handleNext_def)
qed

text \<open>Unfolding the handlers on concrete sessions.\<close>

lemmas session_eval = initialState_def handleShortAnswerChange_def handleCheckAnswer_def
  handleGradeSelection_def isAnswerChecked_def arraySet_def currentQuestion_def
  isMcOrOx_def plainQuestion_def

text \<open>
  C8. While a question is shown, the request to advance runs \<open>handleNext\<close> exactly when
  the current question is checked and, for a short-answer or open-ended question, a grade
  is selected; \<open>handleNext\<close> always changes the index or submits; and on a checked
  short-answer or open-ended question with no grade the request leaves the whole state
  unchanged and submits nothing. The witness is a session of one short-answer question:
  after the answer is typed and checked the request is rejected, and after grade B is
  selected it runs \<open>handleNext\<close>.
\<close>

theorem advance_guard:
  assumes "currentQuestion safeQuestions st = Some q" and "\<not> showResults st"
    and "currentQuestionIndex st < length (shortAnswerGrades st)"
  shows "advance safeQuestions st =
       Some (if isAnswerChecked st
               \<and> (isMcOrOx q \<or> shortAnswerGrades st ! currentQuestionIndex st \<noteq> None)
             then handleNext safeQuestions st else (st, None))
     \<and> handleNext safeQuestions st \<noteq> (st, None)
     \<and> (isAnswerChecked st \<and> \<not> isMcOrOx q
          \<and> shortAnswerGrades st ! currentQuestionIndex st = None
        \<longrightarrow> advance safeQuestions st = Some (st, None))"
  using assms handleNext_changes [of safeQuestions st]
  by (auto simp add: advance_def isNextButtonDisabled_def)

theorem advance_guard_witness:
  "advance [plainQuestion ShortAnswer None (js ''x'')]
     (handleCheckAnswer (plainQuestion ShortAnswer None (js ''x''))
        (handleShortAnswerChange (js ''z'')
           (initialState [plainQuestion ShortAnswer None (js ''x'')])))
   = Some (handleCheckAnswer (plainQuestion ShortAnswer None (js ''x''))
        (handleShortAnswerChange (js ''z'')
           (initialState [plainQuestion ShortAnswer None (js ''x'')])), None)
   \<and> advance [plainQuestion ShortAnswer None (js ''x'')]
     (handleGradeSelection B
       (handleCheckAnswer (plainQuestion ShortAnswer None (js ''x''))
         (handleShortAnswerChange (js ''z'')
            (initialState [plainQuestion ShortAnswer None (js ''x'')]))))
   = Some (handleNext [plainQuestion ShortAnswer None (js ''x'')]
     (handleGradeSelection B
       (handleCheckAnswer (plainQuestion ShortAnswer None (js ''x''))
         (handleShortAnswerChange (js ''z'')
            (initialState [plainQuestion ShortAnswer None (js ''x'')])))))"
proof -
  let ?q = "plainQuestion ShortAnswer None (js ''x'')"
  let ?st = "handleCheckAnswer ?q (handleShortAnswerChange (js ''z'') (initialState [?q]))"
  let ?st' = "handleGradeSelection B ?st"
  have a: "currentQuestion [?q] ?st = Some ?q" "\<not> showResults ?st"
    "currentQuestionIndex ?st < length (shortAnswerGrades ?st)"
    by (simp_all add: session_eval)
  have b: "isAnswerChecked ?st \<and> \<not> isMcOrOx ?q
      \<and> shortAnswerGrades ?st ! currentQuestionIndex ?st = None"
    by (simp add: session_eval)
  have a': "currentQuestion [?q] ?st' = Some ?q" "\<not> showResults ?st'"
    "currentQuestionIndex ?st' < length (shortAnswerGrades ?st')"
    by (simp_all add: session_eval)
  have b': "isAnswerChecked ?st'
      \<and> (isMcOrOx ?q \<or> shortAnswerGrades ?st' ! currentQuestionIndex ?st' \<noteq> None)"
    by (simp add: session_eval)
  from advance_guard [OF a] b have "advance [?q] ?st = Some (?st, None)" by blast
  moreover from advance_guard [OF a'] b'
  have "advance [?q] ?st' = Some (handleNext [?q] ?st')" by simp
  ultimately show ?thesis by simp
qed

section \<open>The history\<close>

text \<open>
  C9. Submitting a quiz appends one new result at the end of the history and leaves the
  entries before it as they were. Deleting, once confirmed, keeps the entries whose id
  differs from the given id, in their order and as often as before, and removes the
  others; unconfirmed it changes nothing. Every entry of a history after either operation
  is an entry of the history before it, or the new result: no stored result is changed.
\<close>

theorem history_append_delete:
  "handleQuizSubmit now standard subjectName qs args studyHistory
     = studyHistory @ [newResult now standard subjectName qs args]
   \<and> take (length studyHistory)
        (handleQuizSubmit now standard subjectName qs args studyHistory) = studyHistory
   \<and> length (handleQuizSubmit now standard subjectName qs args studyHistory)
        = length studyHistory + 1
   \<and> subseq (handleDeleteHistoryItem True ident studyHistory) studyHistory
   \<and> (\<forall>r. r \<in> set (handleDeleteHistoryItem True ident studyHistory)
          \<longleftrightarrow> r \<in> set studyHistory \<and> resultId r \<noteq> ident)
   \<and> (\<forall>r. resultId r \<noteq> ident \<longrightarrow>
          count_list (handleDeleteHistoryItem True ident studyHistory) r
            = count_list studyHistory r)
   \<and> handleDeleteHistoryItem False ident studyHistory = studyHistory
   \<and> (\<forall>r \<in> set (handleQuizSubmit now standard subjectName qs args studyHistory).
          r \<in> set studyHistory \<or> r = newResult now standard subjectName qs args)
   \<and> (\<forall>c. \<forall>r \<in> set (handleDeleteHistoryItem c ident studyHistory). r \<in> set studyHistory)"
proof -
  have c: "count_list (filter P xs) r = count_list xs r" if "P r" for P xs and r :: QuizResult
    using that by (induction xs) auto
  show ?thesis
    by (auto simp add: handleQuizSubmit_def handleDeleteHistoryItem_def c)
qed

theorem history_append_delete_witness:
  "handleQuizSubmit (js ''t2'') (js ''s'', js ''d'') (js ''m'') None
       (finalResults scenarioQuestions scenarioAnswers scenarioGrades)
       [newResult (js ''t1'') (js ''s'', js ''d'') (js ''m'') None
          (finalResults gradedDQuestions gradedDAnswers gradedDGrades)]
     = [newResult (js ''t1'') (js ''s'', js ''d'') (js ''m'') None
          (finalResults gradedDQuestions gradedDAnswers gradedDGrades),
        newResult (js ''t2'') (js ''s'', js ''d'') (js ''m'') None
          (finalResults scenarioQuestions scenarioAnswers scenarioGrades)]
   \<and> newResult (js ''t2'') (js ''s'', js ''d'') (js ''m'') None
          (finalResults scenarioQuestions scenarioAnswers scenarioGrades)
       \<in> set (handleDeleteHistoryItem True (js ''t1'')
          [newResult (js ''t1'') (js ''s'', js ''d'') (js ''m'') None
             (finalResults gradedDQuestions gradedDAnswers gradedDGrades),
           newResult (js ''t2'') (js ''s'', js ''d'') (js ''m'') None
             (finalResults scenarioQuestions scenarioAnswers scenarioGrades)])
   \<and> newResult (js ''t1'') (js ''s'', js ''d'') (js ''m'') None
          (finalResults gradedDQuestions gradedDAnswers gradedDGrades)
       \<notin> set (handleDeleteHistoryItem True (js ''t1'')
          [newResult (js ''t1'') (js ''s'', js ''d'') (js ''m'') None
             (finalResults gradedDQuestions gradedDAnswers gradedDGrades),
           newResult (js ''t2'') (js ''s'', js ''d'') (js ''m'') None
             (finalResults scenarioQuestions scenarioAnswers scenarioGrades)])"
proof -
  let ?r1 = "newResult (js ''t1'') (js ''s'', js ''d'') (js ''m'') None
          (finalResults gradedDQuestions gradedDAnswers gradedDGrades)"
  let ?r2 = "newResult (js ''t2'') (js ''s'', js ''d'') (js ''m'') None
          (finalResults scenarioQuestions scenarioAnswers scenarioGrades)"
  have i1: "resultId ?r1 = js ''t1''" by (simp add: newResult_def)
  have i2: "resultId ?r2 \<noteq> js ''t1''" by (simp add: newResult_def js_def)
  note h = history_append_delete [of "js ''t2''" "(js ''s'', js ''d'')" "js ''m''" None
      "finalResults scenarioQuestions scenarioAnswers scenarioGrades" "[?r1]"]
  note d = history_append_delete [of "js ''t2''" "(js ''s'', js ''d'')" "js ''m''" None
      "finalResults scenarioQuestions scenarioAnswers scenarioGrades" "[?r1, ?r2]" "js ''t1''"]
  from h have a: "handleQuizSubmit (js ''t2'') (js ''s'', js ''d'') (js ''m'') None
       (finalResults scenarioQuestions scenarioAnswers scenarioGrades) [?r1] = [?r1, ?r2]"
    by simp
  from d have m: "\<And>r. r \<in> set (handleDeleteHistoryItem True (js ''t1'') [?r1, ?r2])
          \<longleftrightarrow> r \<in> set [?r1, ?r2] \<and> resultId r \<noteq> js ''t1''"
    by blast
  from m [of ?r2] i2 have b: "?r2 \<in> set (handleDeleteHistoryItem True (js ''t1'') [?r1, ?r2])"
    by simp
  from m [of ?r1] i1 have c: "?r1 \<notin> set (handleDeleteHistoryItem True (js ''t1'') [?r1, ?r2])"
    by simp
  from a b c show ?thesis by blast
qed

end
